theory Spec2Isabelle
  imports Main "HOL-Library.Word"
begin

section \<open>The evm module's command line: data, collaborators, effects\<close>

text \<open>
  The two source files are the transaction commands (\<open>GetTxCmd\<close>: \<open>raw\<close>,
  \<open>set-mapping-evm\<close>, \<open>delete-mapping-evm\<close>) and the query commands (\<open>GetQueryCmd\<close>:
  \<open>storage\<close>, \<open>code\<close>, \<open>params\<close>, \<open>mappedevm\<close>) of package \<open>cli\<close>. Each command is a
  \<open>RunE\<close> closure: a straight line of calls to collaborators, left at the first error.

  A Go \<open>error\<close> is a value or \<open>nil\<close>: \<open>error option\<close>, \<open>None\<close> for \<open>nil\<close>. A call returning
  \<open>(T, error)\<close> is \<open>error + T\<close>. The only error the commands build themselves is
  \<open>errors.Wrap(err, msg)\<close>; \<open>ArgCount\<close> is the refusal of \<open>cobra.ExactArgs\<close> and
  \<open>cobra.NoArgs\<close> (wanted, received).
\<close>

type_synonym byte = "8 word"
type_synonym bytes = "byte list"

datatype error = Failure string | Wrapped error string | ArgCount nat nat

definition errors_Wrap :: "error \<Rightarrow> string \<Rightarrow> error" where
  "errors_Wrap err msg = Wrapped err msg"

text \<open>
  \<open>client.Context\<close>, as far as the commands read it: the two mode flags, the height
  and the sender (\<open>clientCtx.GetFromAddress().String()\<close>).
\<close>

record clientCtx =
  GenerateOnly :: bool
  SkipConfirm :: bool
  Height :: int
  FromAddress :: string

text \<open>
  The context handed to a query: \<open>cmd.Context()\<close>, \<open>rpctypes.ContextWithHeight(h)\<close> or
  \<open>context.Background()\<close>. What \<open>ContextWithHeight\<close> does with its height is not in
  the two source files; it stays a constructor.
\<close>

datatype call_context = cmd_Context | ContextWithHeight int | context_Background

record QueryStorageRequest =
  Address :: string
  Key :: string

datatype rpc_call =
    Storage_call call_context QueryStorageRequest
  | Code_call call_context string
  | Params_call call_context
  | MappedEvmAddress_call call_context string

record EvmParams =
  EvmDenom :: string

record QueryParamsResponse =
  Params :: EvmParams

text \<open>What \<open>clientCtx.PrintProto\<close> is given: a query's response or the broadcast's.\<close>

datatype proto_Message =
    StorageResponse string
  | CodeResponse bytes
  | ParamsResponse QueryParamsResponse
  | MappedEvmAddressResponse string
  | TxResponse string

text \<open>The messages of the two mapping commands, as their constructors are called.\<close>

datatype mapping_Msg =
    NewMsgSetMappingEvmAddress string string
  | NewMsgDeleteMappingEvmAddress string

text \<open>
  Everything a command does to the world, in the order the code does it. \<open>'m\<close> is
  \<open>types.MsgEthereumTx\<close> and \<open>'t\<close> the built \<open>signing.Tx\<close>; neither type is declared
  in the two source files, so they stay type parameters.
\<close>

datatype ('m, 't) event =
    RPC rpc_call
  | Build 'm string
  | Stdout string
  | Stderr string
  | Confirm string
  | Broadcast bytes
  | PrintProto proto_Message
  | GenerateOrBroadcast clientCtx mapping_Msg

text \<open>
  The collaborators, named as the code calls them: everything the commands call and
  the two source files do not define (go-ethereum's \<open>hexutil\<close>, the methods of
  \<open>types.MsgEthereumTx\<close> and of the mapping messages, the SDK's client context, codec,
  prompt and broadcast, the query clients, and the package's own \<open>accountToHex\<close> and
  \<open>formatKeyToHash\<close>, typed as their calls are). Each is a function of what the code
  passes; the query client is built from the \<open>clientCtx\<close>, so the remote methods take
  it first. An effect is recorded where the command itself causes one; what a
  collaborator does inside (reading flags and the keyring to make the client
  context, say) is not.
\<close>

record ('m, 't) collaborators =
  hexutil_Decode :: "string \<Rightarrow> error + bytes"
  UnmarshalBinary :: "bytes \<Rightarrow> error + 'm"
  ValidateBasic :: "'m \<Rightarrow> error option"
  GetClientTxContext :: "error + clientCtx"
  GetClientQueryContext :: "error + clientCtx"
  rpc_Params :: "clientCtx \<Rightarrow> call_context \<Rightarrow> error + QueryParamsResponse"
  rpc_Storage :: "clientCtx \<Rightarrow> call_context \<Rightarrow> QueryStorageRequest \<Rightarrow> error + string"
  rpc_Code :: "clientCtx \<Rightarrow> call_context \<Rightarrow> string \<Rightarrow> error + bytes"
  rpc_MappedEvmAddress :: "clientCtx \<Rightarrow> call_context \<Rightarrow> string \<Rightarrow> error + string"
  BuildTx :: "'m \<Rightarrow> string \<Rightarrow> error + 't"
  TxJSONEncoder :: "'t \<Rightarrow> error + string"
  TxEncoder :: "'t \<Rightarrow> error + bytes"
  PrintString :: "string \<Rightarrow> error option"
  GetConfirmation :: "string \<Rightarrow> bool \<times> error option"
  BroadcastTx :: "bytes \<Rightarrow> error + string"
  PrintProto_result :: "proto_Message \<Rightarrow> error option"
  accountToHex :: "string \<Rightarrow> error + string"
  formatKeyToHash :: "string \<Rightarrow> string"
  ValidateBasic_mapping :: "mapping_Msg \<Rightarrow> error option"
  GenerateOrBroadcastTxCLI :: "clientCtx \<Rightarrow> mapping_Msg \<Rightarrow> error option"

text \<open>A run ends with the returned error and the effects it had, oldest first.\<close>

type_synonym ('m, 't) outcome = "error option \<times> ('m, 't) event list"

definition ret :: "error option \<Rightarrow> ('m, 't) outcome" where
  "ret err = (err, [])"

definition emit :: "('m, 't) event \<Rightarrow> ('m, 't) outcome \<Rightarrow> ('m, 't) outcome" where
  "emit ev r = (fst r, ev # snd r)"

definition newline :: string where
  "newline = [CHR 0x0A]"

subsection \<open>tx raw\<close>

text \<open>
  The tail of \<open>NewRawTxCmd\<close>'s \<open>RunE\<close> (from \<open>clientCtx.TxConfig.TxEncoder()(tx)\<close> to
  \<open>clientCtx.PrintProto(res)\<close>): both the skip-confirmation path and the confirmed
  interactive path fall through to it.
\<close>

definition rawTx_broadcast :: "('m, 't) collaborators \<Rightarrow> 't \<Rightarrow> ('m, 't) outcome" where
  "rawTx_broadcast c tx =
    (case TxEncoder c tx of
      Inl err \<Rightarrow> ret (Some err)
    | Inr txBytes \<Rightarrow>
        emit (Broadcast txBytes)
        (case BroadcastTx c txBytes of
          Inl err \<Rightarrow> ret (Some err)
        | Inr res \<Rightarrow>
            emit (PrintProto (TxResponse res)) (ret (PrintProto_result c (TxResponse res)))))"

definition confirm_prompt :: string where
  "confirm_prompt = ''confirm transaction before signing and broadcasting''"

text \<open>
  \<open>NewRawTxCmd\<close>: \<open>Args: cobra.ExactArgs(1)\<close>, then the \<open>RunE\<close> closure line by line.
  \<open>fmt.Fprintf(os.Stderr, ...)\<close> drops its own error, as the code does. \<open>Build\<close> marks
  the call of \<open>msg.BuildTx\<close> with the denomination it is given.
\<close>

definition NewRawTxCmd :: "('m, 't) collaborators \<Rightarrow> string list \<Rightarrow> ('m, 't) outcome" where
  "NewRawTxCmd c args =
    (case args of
      [tx_hex] \<Rightarrow>
        (case hexutil_Decode c tx_hex of
          Inl err \<Rightarrow> ret (Some (errors_Wrap err ''failed to decode ethereum tx hex bytes''))
        | Inr data \<Rightarrow>
        (case UnmarshalBinary c data of
          Inl err \<Rightarrow> ret (Some err)
        | Inr msg \<Rightarrow>
        (case ValidateBasic c msg of
          Some err \<Rightarrow> ret (Some err)
        | None \<Rightarrow>
        (case GetClientTxContext c of
          Inl err \<Rightarrow> ret (Some err)
        | Inr clientCtx \<Rightarrow>
        emit (RPC (Params_call cmd_Context))
        (case rpc_Params c clientCtx cmd_Context of
          Inl err \<Rightarrow> ret (Some err)
        | Inr rsp \<Rightarrow>
        emit (Build msg (EvmDenom (Params rsp)))
        (case BuildTx c msg (EvmDenom (Params rsp)) of
          Inl err \<Rightarrow> ret (Some err)
        | Inr tx \<Rightarrow>
          if GenerateOnly clientCtx then
            (case TxJSONEncoder c tx of
              Inl err \<Rightarrow> ret (Some err)
            | Inr json \<Rightarrow>
                emit (Stdout (json @ newline)) (ret (PrintString c (json @ newline))))
          else if \<not> SkipConfirm clientCtx then
            (case TxJSONEncoder c tx of
              Inl err \<Rightarrow> ret (Some err)
            | Inr out \<Rightarrow>
                emit (Stderr (out @ newline @ newline))
                (emit (Confirm confirm_prompt)
                (case GetConfirmation c confirm_prompt of
                  (ok, err) \<Rightarrow>
                    if err \<noteq> None \<or> \<not> ok then
                      emit (Stderr (''canceled transaction'' @ newline)) (ret err)
                    else rawTx_broadcast c tx)))
          else rawTx_broadcast c tx))))))
    | _ \<Rightarrow> ret (Some (ArgCount 1 (length args))))"

subsection \<open>tx set-mapping-evm, tx delete-mapping-evm\<close>

text \<open>
  \<open>fmt.Println("pubkey: ", args[0])\<close> writes its operands with a space between them
  and a newline after. \<open>cobra.NoArgs\<close> refuses any argument.
\<close>

definition getCmdSetMappingEvmAddress ::
  "('m, 't) collaborators \<Rightarrow> string list \<Rightarrow> ('m, 't) outcome" where
  "getCmdSetMappingEvmAddress c args =
    (case args of
      [evm_address] \<Rightarrow>
        (case GetClientTxContext c of
          Inl err \<Rightarrow> ret (Some err)
        | Inr clientCtx \<Rightarrow>
            (let signer = FromAddress clientCtx in
             emit (Stdout (''pubkey: '' @ '' '' @ evm_address @ newline))
             (let msg = NewMsgSetMappingEvmAddress signer evm_address in
              case ValidateBasic_mapping c msg of
                Some err \<Rightarrow> ret (Some err)
              | None \<Rightarrow>
                  emit (GenerateOrBroadcast clientCtx msg)
                    (ret (GenerateOrBroadcastTxCLI c clientCtx msg)))))
    | _ \<Rightarrow> ret (Some (ArgCount 1 (length args))))"

definition getCmdDeleteMappingEvmAddress ::
  "('m, 't) collaborators \<Rightarrow> string list \<Rightarrow> ('m, 't) outcome" where
  "getCmdDeleteMappingEvmAddress c args =
    (case args of
      [] \<Rightarrow>
        (case GetClientTxContext c of
          Inl err \<Rightarrow> ret (Some err)
        | Inr clientCtx \<Rightarrow>
            (let signer = FromAddress clientCtx;
                 msg = NewMsgDeleteMappingEvmAddress signer in
             case ValidateBasic_mapping c msg of
               Some err \<Rightarrow> ret (Some err)
             | None \<Rightarrow>
                 emit (GenerateOrBroadcast clientCtx msg)
                   (ret (GenerateOrBroadcastTxCLI c clientCtx msg))))
    | _ \<Rightarrow> ret (Some (ArgCount 0 (length args))))"

subsection \<open>query storage, code, params, mappedevm\<close>

definition GetStorageCmd :: "('m, 't) collaborators \<Rightarrow> string list \<Rightarrow> ('m, 't) outcome" where
  "GetStorageCmd c args =
    (case args of
      [a, k] \<Rightarrow>
        (case GetClientQueryContext c of
          Inl err \<Rightarrow> ret (Some err)
        | Inr clientCtx \<Rightarrow>
        (case accountToHex c a of
          Inl err \<Rightarrow> ret (Some err)
        | Inr address \<Rightarrow>
            (let key = formatKeyToHash c k;
                 req = \<lparr>Address = address, Key = key\<rparr> in
             emit (RPC (Storage_call (ContextWithHeight (Height clientCtx)) req))
             (case rpc_Storage c clientCtx (ContextWithHeight (Height clientCtx)) req of
               Inl err \<Rightarrow> ret (Some err)
             | Inr res \<Rightarrow>
                 emit (PrintProto (StorageResponse res))
                   (ret (PrintProto_result c (StorageResponse res)))))))
    | _ \<Rightarrow> ret (Some (ArgCount 2 (length args))))"

definition GetCodeCmd :: "('m, 't) collaborators \<Rightarrow> string list \<Rightarrow> ('m, 't) outcome" where
  "GetCodeCmd c args =
    (case args of
      [a] \<Rightarrow>
        (case GetClientQueryContext c of
          Inl err \<Rightarrow> ret (Some err)
        | Inr clientCtx \<Rightarrow>
        (case accountToHex c a of
          Inl err \<Rightarrow> ret (Some err)
        | Inr address \<Rightarrow>
            emit (RPC (Code_call (ContextWithHeight (Height clientCtx)) address))
            (case rpc_Code c clientCtx (ContextWithHeight (Height clientCtx)) address of
              Inl err \<Rightarrow> ret (Some err)
            | Inr res \<Rightarrow>
                emit (PrintProto (CodeResponse res))
                  (ret (PrintProto_result c (CodeResponse res))))))
    | _ \<Rightarrow> ret (Some (ArgCount 1 (length args))))"

definition GetParamsCmd :: "('m, 't) collaborators \<Rightarrow> string list \<Rightarrow> ('m, 't) outcome" where
  "GetParamsCmd c args =
    (case args of
      [] \<Rightarrow>
        (case GetClientQueryContext c of
          Inl err \<Rightarrow> ret (Some err)
        | Inr clientCtx \<Rightarrow>
            emit (RPC (Params_call (ContextWithHeight (Height clientCtx))))
            (case rpc_Params c clientCtx (ContextWithHeight (Height clientCtx)) of
              Inl err \<Rightarrow> ret (Some err)
            | Inr res \<Rightarrow>
                emit (PrintProto (ParamsResponse res))
                  (ret (PrintProto_result c (ParamsResponse res)))))
    | _ \<Rightarrow> ret (Some (ArgCount 0 (length args))))"

definition QueryMappedEvmAddressCmd ::
  "('m, 't) collaborators \<Rightarrow> string list \<Rightarrow> ('m, 't) outcome" where
  "QueryMappedEvmAddressCmd c args =
    (case args of
      [cosmosAddress] \<Rightarrow>
        (case GetClientQueryContext c of
          Inl err \<Rightarrow> ret (Some err)
        | Inr clientCtx \<Rightarrow>
            emit (RPC (MappedEvmAddress_call context_Background cosmosAddress))
            (case rpc_MappedEvmAddress c clientCtx context_Background cosmosAddress of
              Inl err \<Rightarrow> ret (Some err)
            | Inr res \<Rightarrow>
                emit (PrintProto (MappedEvmAddressResponse res))
                  (ret (PrintProto_result c (MappedEvmAddressResponse res)))))
    | _ \<Rightarrow> ret (Some (ArgCount 1 (length args))))"

subsection \<open>Reading a run\<close>

fun rpc_calls :: "('m, 't) event list \<Rightarrow> rpc_call list" where
  "rpc_calls [] = []"
| "rpc_calls (RPC r # es) = r # rpc_calls es"
| "rpc_calls (_ # es) = rpc_calls es"

fun broadcasts :: "('m, 't) event list \<Rightarrow> bytes list" where
  "broadcasts [] = []"
| "broadcasts (Broadcast b # es) = b # broadcasts es"
| "broadcasts (_ # es) = broadcasts es"

fun builds :: "('m, 't) event list \<Rightarrow> ('m \<times> string) list" where
  "builds [] = []"
| "builds (Build m d # es) = (m, d) # builds es"
| "builds (_ # es) = builds es"

fun submissions :: "('m, 't) event list \<Rightarrow> mapping_Msg list" where
  "submissions [] = []"
| "submissions (GenerateOrBroadcast ctx m # es) = m # submissions es"
| "submissions (_ # es) = submissions es"

fun call_context_of :: "rpc_call \<Rightarrow> call_context" where
  "call_context_of (Storage_call ctx _) = ctx"
| "call_context_of (Code_call ctx _) = ctx"
| "call_context_of (Params_call ctx) = ctx"
| "call_context_of (MappedEvmAddress_call ctx _) = ctx"

text \<open>
  Modelled from the spec: the process entry point that turns the error returned by a
  command into the exit code is not in the two source files. Section 6: exit code 0
  on success, non-zero on any surfaced error.
\<close>

definition exitCode :: "error option \<Rightarrow> nat" where
  "exitCode r = (case r of None \<Rightarrow> 0 | Some _ \<Rightarrow> 1)"

section \<open>Parts of the package that are not in the two source files\<close>

subsection \<open>Hexadecimal text\<close>

text \<open>
  Digits, bytes written as pairs of digits, and the \<open>0x\<close> prefix: what the normalizers
  below and the sample decoder read.
\<close>

definition hexval :: "char \<Rightarrow> nat option" where
  "hexval ch =
    (let n = (of_char ch :: nat) in
     if 48 \<le> n \<and> n \<le> 57 then Some (n - 48)
     else if 97 \<le> n \<and> n \<le> 102 then Some (n - 87)
     else if 65 \<le> n \<and> n \<le> 70 then Some (n - 55)
     else None)"

definition isHexDigit :: "char \<Rightarrow> bool" where
  "isHexDigit ch = (hexval ch \<noteq> None)"

fun hexBytes :: "string \<Rightarrow> bytes option" where
  "hexBytes [] = Some []"
| "hexBytes [a] = None"
| "hexBytes (a # b # r) =
    (case hexval a of
      None \<Rightarrow> None
    | Some x \<Rightarrow>
      (case hexval b of
        None \<Rightarrow> None
      | Some y \<Rightarrow>
        (case hexBytes r of
          None \<Rightarrow> None
        | Some bs \<Rightarrow> Some (word_of_nat (16 * x + y) # bs))))"

definition lowerHex :: "char \<Rightarrow> char" where
  "lowerHex ch =
    (if ch = CHR ''A'' then CHR ''a''
     else if ch = CHR ''B'' then CHR ''b''
     else if ch = CHR ''C'' then CHR ''c''
     else if ch = CHR ''D'' then CHR ''d''
     else if ch = CHR ''E'' then CHR ''e''
     else if ch = CHR ''F'' then CHR ''f''
     else ch)"

definition strip0x :: "string \<Rightarrow> string" where
  "strip0x s = (if take 2 s = ''0x'' then drop 2 s else s)"

text \<open>Digits read as whole bytes: an odd number of digits has a leading zero digit.\<close>

definition wholeBytes :: "string \<Rightarrow> string" where
  "wholeBytes d = (if even (length d) then d else CHR ''0'' # d)"

subsection \<open>The argument normalizers\<close>

definition InvalidAddress :: error where
  "InvalidAddress = Failure ''InvalidAddress''"

text \<open>
  Modelled from the spec: \<open>accountToHex\<close> is called by \<open>GetStorageCmd\<close> and \<open>GetCodeCmd\<close>
  but defined in a file of package \<open>cli\<close> that is missing. Section 4.1: it accepts an
  already-hex-encoded 20-byte address or a checksummed address string, returns the
  canonical 20-byte hex representation (here: \<open>0x\<close> and the digits in lower case), and
  fails with \<open>InvalidAddress\<close> otherwise. An address in hex is 40 hexadecimal digits
  (20 bytes), with or without the \<open>0x\<close> prefix; a checksummed address is such a
  string whose letters' case carries the checksum, so it is a hex string of the
  expected length too. Its type is the one of the call
  \<open>address, err := accountToHex(args[0])\<close>.
\<close>

definition isHexAddress :: "string \<Rightarrow> bool" where
  "isHexAddress s = (length (strip0x s) = 40 \<and> list_all isHexDigit (strip0x s))"

definition spec_accountToHex :: "string \<Rightarrow> error + string" where
  "spec_accountToHex s =
    (if isHexAddress s then Inr (''0x'' @ map lowerHex (strip0x s)) else Inl InvalidAddress)"

text \<open>
  Modelled from the spec: \<open>formatKeyToHash\<close> is called by \<open>GetStorageCmd\<close> but defined in
  a file of package \<open>cli\<close> that is missing. Section 4.1: it accepts a storage key in a
  short or unpadded hex form and left-pads it to the 32-byte width (64 digits). Its
  type is the one of the call \<open>key := formatKeyToHash(args[1])\<close>: one string in, one
  string out, no error.
\<close>

definition spec_formatKeyToHash :: "string \<Rightarrow> string" where
  "spec_formatKeyToHash key =
    (let d = strip0x key in ''0x'' @ replicate (64 - length d) (CHR ''0'') @ d)"

subsection \<open>The foreign transaction and its envelope\<close>

text \<open>
  Modelled from the spec: \<open>types.MsgEthereumTx\<close>, the built transaction and
  \<open>MsgEthereumTx.BuildTx\<close> are in packages that are missing. Section 3: a decoded
  foreign transaction has a sender, a nonce, gas parameters, a payload and a
  signature; the host envelope has its wrapped messages, a fee and signer
  information. Section 4.5: the envelope holds the one wrapped message, the fee is
  computed from the transaction's own gas parameters in the host denomination, and
  there is no memo.
\<close>

record DecodedForeignTx =
  sender :: string
  nonce :: nat
  gasLimit :: nat
  gasPrice :: nat
  payload :: bytes
  signature :: bytes

record HostEnvelope =
  messages :: "DecodedForeignTx list"
  fee :: "(string \<times> nat) list"
  memo :: string

definition spec_BuildTx :: "DecodedForeignTx \<Rightarrow> string \<Rightarrow> error + HostEnvelope" where
  "spec_BuildTx msg evmDenom =
    Inr \<lparr>messages = [msg], fee = [(evmDenom, gasLimit msg * gasPrice msg)], memo = []\<rparr>"

definition wrappedTx :: "HostEnvelope \<Rightarrow> DecodedForeignTx option" where
  "wrappedTx env = (case messages env of [m] \<Rightarrow> Some m | _ \<Rightarrow> None)"

section \<open>A concrete set of collaborators\<close>

text \<open>
  To run the commands on inputs, the collaborators must be given. These are small
  stand-ins: a hex decoder that wants the \<open>0x\<close> prefix, a toy wire format (nonce, gas
  limit, gas price and signature length in one byte each, then the signature, then
  the payload), a validation that refuses an empty signature, a remote that answers
  every query, a user who answers yes.
\<close>

definition sample_Decode :: "string \<Rightarrow> error + bytes" where
  "sample_Decode s =
    (if take 2 s = ''0x'' then
      (case hexBytes (drop 2 s) of
        None \<Rightarrow> Inl (Failure ''invalid hex string'')
      | Some bs \<Rightarrow> Inr bs)
     else Inl (Failure ''hex string without 0x prefix''))"

definition sample_Unmarshal :: "bytes \<Rightarrow> error + DecodedForeignTx" where
  "sample_Unmarshal blob =
    (case blob of
      n # g # p # l # rest \<Rightarrow>
        if unat l \<le> length rest then
          Inr \<lparr>sender = [], nonce = unat n, gasLimit = unat g, gasPrice = unat p,
            payload = drop (unat l) rest, signature = take (unat l) rest\<rparr>
        else Inl (Failure ''truncated transaction'')
    | _ \<Rightarrow> Inl (Failure ''truncated transaction''))"

definition sample_ctx :: clientCtx where
  "sample_ctx = \<lparr>GenerateOnly = False, SkipConfirm = False, Height = 0, FromAddress = ''orai1sender''\<rparr>"

definition sample :: "(DecodedForeignTx, HostEnvelope) collaborators" where
  "sample =
    \<lparr>hexutil_Decode = sample_Decode,
     UnmarshalBinary = sample_Unmarshal,
     ValidateBasic = (\<lambda>m. if signature m = [] then Some (Failure ''empty signature'') else None),
     GetClientTxContext = Inr sample_ctx,
     GetClientQueryContext = Inr sample_ctx,
     rpc_Params = (\<lambda>ctx call. Inr \<lparr>Params = \<lparr>EvmDenom = ''aorai''\<rparr>\<rparr>),
     rpc_Storage = (\<lambda>ctx call req. Inr ''0x2a''),
     rpc_Code = (\<lambda>ctx call a. Inr [0x60, 0x80]),
     rpc_MappedEvmAddress = (\<lambda>ctx call a. Inr ''0xab''),
     BuildTx = spec_BuildTx,
     TxJSONEncoder = (\<lambda>t. Inr ''{}''),
     TxEncoder = (\<lambda>t. Inr (concat (map signature (messages t) @ map payload (messages t)))),
     PrintString = (\<lambda>s. None),
     GetConfirmation = (\<lambda>prompt. (True, None)),
     BroadcastTx = (\<lambda>b. Inr ''ok''),
     PrintProto_result = (\<lambda>m. None),
     accountToHex = spec_accountToHex,
     formatKeyToHash = spec_formatKeyToHash,
     ValidateBasic_mapping =
       (\<lambda>m. case m of
          NewMsgSetMappingEvmAddress s a \<Rightarrow>
            if s = [] \<or> a = [] then Some (Failure ''empty address'') else None
        | NewMsgDeleteMappingEvmAddress s \<Rightarrow>
            if s = [] then Some (Failure ''empty address'') else None),
     GenerateOrBroadcastTxCLI = (\<lambda>ctx m. None)\<rparr>"

text \<open>
  Variations of the sample: the generate-only flag set; a user who answers no; a
  confirmation that cannot be read; a remote whose parameter query fails; a query at
  height 7; a sender without an address.
\<close>

definition generating :: "(DecodedForeignTx, HostEnvelope) collaborators" where
  "generating = sample\<lparr>GetClientTxContext := Inr (sample_ctx\<lparr>GenerateOnly := True\<rparr>)\<rparr>"

definition declining :: "(DecodedForeignTx, HostEnvelope) collaborators" where
  "declining = sample\<lparr>GetConfirmation := (\<lambda>prompt. (False, None))\<rparr>"

definition unreadable :: "(DecodedForeignTx, HostEnvelope) collaborators" where
  "unreadable = sample\<lparr>GetConfirmation := (\<lambda>prompt. (False, Some (Failure ''EOF'')))\<rparr>"

definition params_down :: "(DecodedForeignTx, HostEnvelope) collaborators" where
  "params_down = sample\<lparr>rpc_Params := (\<lambda>ctx call. Inl (Failure ''unavailable''))\<rparr>"

definition at_height_7 :: "(DecodedForeignTx, HostEnvelope) collaborators" where
  "at_height_7 = sample\<lparr>GetClientQueryContext := Inr (sample_ctx\<lparr>Height := 7\<rparr>)\<rparr>"

definition anonymous :: "(DecodedForeignTx, HostEnvelope) collaborators" where
  "anonymous = sample\<lparr>GetClientTxContext := Inr (sample_ctx\<lparr>FromAddress := []\<rparr>)\<rparr>"

section \<open>Properties\<close>

subsection \<open>Unfolding a run, and the sample inputs\<close>

lemmas run_defs = ret_def emit_def errors_Wrap_def

lemmas sample_defs = generating_def declining_def unreadable_def params_down_def at_height_7_def
  anonymous_def sample_def sample_ctx_def

lemma sample_Decode_good: "sample_Decode ''0x0105020199aa'' = Inr [1, 5, 2, 1, 0x99, 0xaa]"
  by (simp add: sample_Decode_def hexval_def)

lemma sample_Decode_unsigned: "sample_Decode ''0x01050200aa'' = Inr [1, 5, 2, 0, 0xaa]"
  by (simp add: sample_Decode_def hexval_def)

lemma sample_Decode_bad: "sample_Decode ''0xzz'' = Inl (Failure ''invalid hex string'')"
  by (simp add: sample_Decode_def hexval_def)

lemma sample_Unmarshal_good:
  "sample_Unmarshal [1, 5, 2, 1, 0x99, 0xaa] =
    Inr \<lparr>sender = [], nonce = 1, gasLimit = 5, gasPrice = 2, payload = [0xaa], signature = [0x99]\<rparr>"
  by (simp add: sample_Unmarshal_def)

lemma sample_Unmarshal_unsigned:
  "sample_Unmarshal [1, 5, 2, 0, 0xaa] =
    Inr \<lparr>sender = [], nonce = 1, gasLimit = 5, gasPrice = 2, payload = [0xaa], signature = []\<rparr>"
  by (simp add: sample_Unmarshal_def)

lemma sample_run_confirmed:
  "NewRawTxCmd sample [''0x0105020199aa''] =
    (None,
     [RPC (Params_call cmd_Context),
      Build \<lparr>sender = [], nonce = 1, gasLimit = 5, gasPrice = 2, payload = [0xaa],
        signature = [0x99]\<rparr> ''aorai'',
      Stderr (''{}'' @ newline @ newline),
      Confirm confirm_prompt,
      Broadcast [0x99, 0xaa],
      PrintProto (TxResponse ''ok'')])"
  by (simp add: NewRawTxCmd_def rawTx_broadcast_def run_defs sample_defs
      sample_Decode_good sample_Unmarshal_good spec_BuildTx_def)

lemma sample_address:
  "spec_accountToHex ''0x00000000000000000000000000000000000000Ab'' =
    Inr ''0x00000000000000000000000000000000000000ab''"
  by (simp add: spec_accountToHex_def isHexAddress_def strip0x_def isHexDigit_def hexval_def
      lowerHex_def)

lemma sample_key:
  "spec_formatKeyToHash ''0x01'' =
    ''0x0000000000000000000000000000000000000000000000000000000000000001''"
  by (simp add: spec_formatKeyToHash_def strip0x_def eval_nat_numeral)

subsection \<open>The Raw Decoder's failures come before everything else\<close>

text \<open>
  C5. Malformed hex never gets past the Raw Decoder: when \<open>hexutil.Decode\<close> refuses
  the argument, \<open>tx raw\<close> returns that error wrapped as
  "failed to decode ethereum tx hex bytes" and has had no effect at all: no
  parameter query, no envelope built, nothing printed, nothing broadcast.
\<close>

theorem raw_malformed_hex_stops_at_decoder:
  assumes "hexutil_Decode c tx_hex = Inl e"
  shows "NewRawTxCmd c [tx_hex] =
    (Some (Wrapped e ''failed to decode ethereum tx hex bytes''), [])"
  using assms by (simp add: NewRawTxCmd_def ret_def errors_Wrap_def)

theorem raw_malformed_hex_witness:
  "hexutil_Decode sample ''0xzz'' = Inl (Failure ''invalid hex string'') \<and>
   NewRawTxCmd sample [''0xzz''] =
     (Some (Wrapped (Failure ''invalid hex string'') ''failed to decode ethereum tx hex bytes''), [])"
  using raw_malformed_hex_stops_at_decoder [of sample "''0xzz''" "Failure ''invalid hex string''"]
  by (simp add: sample_defs sample_Decode_bad)

text \<open>
  C4. A transaction that decodes and deserializes but fails its basic validation
  makes \<open>tx raw\<close> return the validation's error before any remote call: the run has
  no effect, so the fee-denomination query is never issued. Which violations
  \<open>ValidateBasic\<close> reports is the collaborator's business; the sample's refuses an
  empty signature.
\<close>

theorem raw_invalid_tx_fails_before_any_rpc:
  assumes "hexutil_Decode c tx_hex = Inr data"
    and "UnmarshalBinary c data = Inr msg"
    and "ValidateBasic c msg = Some e"
  shows "NewRawTxCmd c [tx_hex] = (Some e, [])"
  using assms by (simp add: NewRawTxCmd_def ret_def)

theorem raw_invalid_tx_witness:
  "hexutil_Decode sample ''0x01050200aa'' = Inr [1, 5, 2, 0, 0xaa] \<and>
   signature \<lparr>sender = [], nonce = 1, gasLimit = 5, gasPrice = 2, payload = [0xaa],
     signature = []\<rparr> = [] \<and>
   NewRawTxCmd sample [''0x01050200aa''] = (Some (Failure ''empty signature''), [])"
  using raw_invalid_tx_fails_before_any_rpc [of sample "''0x01050200aa''" "[1, 5, 2, 0, 0xaa]"
    "\<lparr>sender = [], nonce = 1, gasLimit = 5, gasPrice = 2, payload = [0xaa], signature = []\<rparr>"
    "Failure ''empty signature''"]
  by (simp add: sample_defs sample_Decode_unsigned sample_Unmarshal_unsigned)

subsection \<open>The order of the parameter query, the envelope and the broadcast\<close>

text \<open>
  C7. In every run of \<open>tx raw\<close> that broadcasts, the run starts with the
  fee-denomination query, the envelope is built next and with the denomination of
  that query's response, and the broadcast of that envelope's encoding comes later.
  When the parameter query fails, the command returns its error right after the
  query: no envelope is built with any denomination and nothing is broadcast (or the
  run had already stopped before the query, with no effect).
\<close>

theorem raw_params_fetch_precedes_build_and_broadcast:
  "(\<forall>bz. Broadcast bz \<in> set (snd (NewRawTxCmd c args)) \<longrightarrow>
      (\<exists>ctx rsp msg tx rest.
         GetClientTxContext c = Inr ctx \<and>
         rpc_Params c ctx cmd_Context = Inr rsp \<and>
         BuildTx c msg (EvmDenom (Params rsp)) = Inr tx \<and>
         TxEncoder c tx = Inr bz \<and>
         snd (NewRawTxCmd c args) =
           RPC (Params_call cmd_Context) # Build msg (EvmDenom (Params rsp)) # rest \<and>
         Broadcast bz \<in> set rest)) \<and>
   (\<forall>ctx e. GetClientTxContext c = Inr ctx \<and> rpc_Params c ctx cmd_Context = Inl e \<longrightarrow>
      snd (NewRawTxCmd c args) = [] \<or>
      NewRawTxCmd c args = (Some e, [RPC (Params_call cmd_Context)]))"
  apply (rule conjI)
   apply (auto simp: NewRawTxCmd_def rawTx_broadcast_def run_defs
      split: list.splits sum.splits option.splits if_splits prod.splits)[1]
  apply (auto simp: NewRawTxCmd_def run_defs
      split: list.splits sum.splits option.splits if_splits prod.splits)[1]
  done

theorem raw_params_fetch_witness:
  "Broadcast [0x99, 0xaa] \<in> set (snd (NewRawTxCmd sample [''0x0105020199aa''])) \<and>
   (\<exists>msg rest.
      snd (NewRawTxCmd sample [''0x0105020199aa'']) =
        RPC (Params_call cmd_Context) # Build msg ''aorai'' # rest \<and>
      Broadcast [0x99, 0xaa] \<in> set rest) \<and>
   NewRawTxCmd params_down [''0x0105020199aa''] =
     (Some (Failure ''unavailable''), [RPC (Params_call cmd_Context)])"
proof -
  have sent: "Broadcast [0x99, 0xaa] \<in> set (snd (NewRawTxCmd sample [''0x0105020199aa'']))"
    by (simp add: sample_run_confirmed)
  have "rpc_Params sample sample_ctx cmd_Context = Inr \<lparr>Params = \<lparr>EvmDenom = ''aorai''\<rparr>\<rparr>"
    by (simp add: sample_defs)
  with sent raw_params_fetch_precedes_build_and_broadcast [of sample "[''0x0105020199aa'']"]
  have ordered: "\<exists>msg rest.
      snd (NewRawTxCmd sample [''0x0105020199aa'']) =
        RPC (Params_call cmd_Context) # Build msg ''aorai'' # rest \<and>
      Broadcast [0x99, 0xaa] \<in> set rest"
    by (simp only: sample_run_confirmed) auto
  have "GetClientTxContext params_down = Inr sample_ctx"
    and "rpc_Params params_down sample_ctx cmd_Context = Inl (Failure ''unavailable'')"
    by (simp_all add: sample_defs)
  moreover have "snd (NewRawTxCmd params_down [''0x0105020199aa'']) \<noteq> []"
    by (simp add: NewRawTxCmd_def run_defs sample_defs sample_Decode_good sample_Unmarshal_good)
  ultimately have "NewRawTxCmd params_down [''0x0105020199aa''] =
      (Some (Failure ''unavailable''), [RPC (Params_call cmd_Context)])"
    using raw_params_fetch_precedes_build_and_broadcast [of params_down "[''0x0105020199aa'']"]
    by blast
  with sent ordered show ?thesis by blast
qed

subsection \<open>The confirmation gate\<close>

text \<open>
  C3, as the code has it. With \<open>--generate-only\<close> set and a valid transaction, \<open>tx raw\<close>
  issues exactly one remote call, the fee-denomination query (it comes before the
  mode is looked at), and broadcasts nothing; when the query, the envelope and its
  JSON encoding succeed, the run is that query, the building of the envelope and the
  printing of the JSON text followed by a newline, and the command returns what the
  printing returns.
\<close>

theorem raw_generate_only_one_query_no_broadcast:
  assumes "hexutil_Decode c tx_hex = Inr data"
    and "UnmarshalBinary c data = Inr msg"
    and "ValidateBasic c msg = None"
    and "GetClientTxContext c = Inr ctx"
    and "GenerateOnly ctx"
  shows "rpc_calls (snd (NewRawTxCmd c [tx_hex])) = [Params_call cmd_Context] \<and>
    broadcasts (snd (NewRawTxCmd c [tx_hex])) = [] \<and>
    (\<forall>rsp tx json.
       rpc_Params c ctx cmd_Context = Inr rsp \<and>
       BuildTx c msg (EvmDenom (Params rsp)) = Inr tx \<and>
       TxJSONEncoder c tx = Inr json \<longrightarrow>
       NewRawTxCmd c [tx_hex] =
         (PrintString c (json @ newline),
          [RPC (Params_call cmd_Context), Build msg (EvmDenom (Params rsp)),
           Stdout (json @ newline)]))"
  using assms
  by (auto simp: NewRawTxCmd_def run_defs split: sum.splits)

theorem raw_generate_only_witness:
  "rpc_calls (snd (NewRawTxCmd generating [''0x0105020199aa''])) = [Params_call cmd_Context] \<and>
   broadcasts (snd (NewRawTxCmd generating [''0x0105020199aa''])) = [] \<and>
   NewRawTxCmd generating [''0x0105020199aa''] =
     (None,
      [RPC (Params_call cmd_Context),
       Build \<lparr>sender = [], nonce = 1, gasLimit = 5, gasPrice = 2, payload = [0xaa],
         signature = [0x99]\<rparr> ''aorai'',
       Stdout (''{}'' @ newline)])"
  using raw_generate_only_one_query_no_broadcast
    [of generating "''0x0105020199aa''" "[1, 5, 2, 1, 0x99, 0xaa]"
      "\<lparr>sender = [], nonce = 1, gasLimit = 5, gasPrice = 2, payload = [0xaa],
        signature = [0x99]\<rparr>"
      "sample_ctx\<lparr>GenerateOnly := True\<rparr>"]
  by (simp add: sample_defs sample_Decode_good sample_Unmarshal_good
      spec_BuildTx_def)

text \<open>
  C3 as stated asks for zero remote calls. On the sample collaborators with
  \<open>GenerateOnly\<close> set, the run of \<open>tx raw\<close> on a valid transaction has one: the
  parameter query.
\<close>

theorem raw_generate_only_counterexample:
  "GetClientTxContext generating = Inr (sample_ctx\<lparr>GenerateOnly := True\<rparr>) \<and>
   rpc_calls (snd (NewRawTxCmd generating [''0x0105020199aa''])) = [Params_call cmd_Context]"
  by (simp add: NewRawTxCmd_def run_defs sample_defs
      sample_Decode_good sample_Unmarshal_good spec_BuildTx_def)

text \<open>
  C2, as the code has it. In interactive mode (neither \<open>GenerateOnly\<close> nor
  \<open>SkipConfirm\<close>), when the confirmation comes back negative or with a read error, the
  run ends with "canceled transaction" on the diagnostic stream: nothing is encoded
  or broadcast, and the command returns the confirmation's own error value. So the
  exit code is non-zero when the read failed, and zero when the user merely
  declined, since then that error value is \<open>nil\<close>.
\<close>

theorem raw_declined_confirmation_never_broadcasts:
  assumes "hexutil_Decode c tx_hex = Inr data"
    and "UnmarshalBinary c data = Inr msg"
    and "ValidateBasic c msg = None"
    and "GetClientTxContext c = Inr ctx"
    and "\<not> GenerateOnly ctx"
    and "\<not> SkipConfirm ctx"
    and "rpc_Params c ctx cmd_Context = Inr rsp"
    and "BuildTx c msg (EvmDenom (Params rsp)) = Inr tx"
    and "TxJSONEncoder c tx = Inr out"
    and "GetConfirmation c confirm_prompt = (ok, err)"
    and "err \<noteq> None \<or> \<not> ok"
  shows "NewRawTxCmd c [tx_hex] =
      (err,
       [RPC (Params_call cmd_Context), Build msg (EvmDenom (Params rsp)),
        Stderr (out @ newline @ newline), Confirm confirm_prompt,
        Stderr (''canceled transaction'' @ newline)]) \<and>
    broadcasts (snd (NewRawTxCmd c [tx_hex])) = [] \<and>
    exitCode (fst (NewRawTxCmd c [tx_hex])) = (if err = None then 0 else 1)"
  using assms
  by (auto simp: NewRawTxCmd_def run_defs exitCode_def split: option.splits)

theorem raw_declined_confirmation_witness:
  "NewRawTxCmd unreadable [''0x0105020199aa''] =
     (Some (Failure ''EOF''),
      [RPC (Params_call cmd_Context),
       Build \<lparr>sender = [], nonce = 1, gasLimit = 5, gasPrice = 2, payload = [0xaa],
         signature = [0x99]\<rparr> ''aorai'',
       Stderr (''{}'' @ newline @ newline), Confirm confirm_prompt,
       Stderr (''canceled transaction'' @ newline)]) \<and>
   broadcasts (snd (NewRawTxCmd unreadable [''0x0105020199aa''])) = [] \<and>
   exitCode (fst (NewRawTxCmd unreadable [''0x0105020199aa''])) = 1"
  using raw_declined_confirmation_never_broadcasts
    [of unreadable "''0x0105020199aa''" "[1, 5, 2, 1, 0x99, 0xaa]"
      "\<lparr>sender = [], nonce = 1, gasLimit = 5, gasPrice = 2, payload = [0xaa],
        signature = [0x99]\<rparr>"
      sample_ctx "\<lparr>Params = \<lparr>EvmDenom = ''aorai''\<rparr>\<rparr>"
      "\<lparr>messages = [\<lparr>sender = [], nonce = 1, gasLimit = 5, gasPrice = 2, payload = [0xaa],
        signature = [0x99]\<rparr>], fee = [(''aorai'', 10)], memo = []\<rparr>"
      "''{}''" False "Some (Failure ''EOF'')"]
  by (simp add: sample_defs sample_Decode_good sample_Unmarshal_good
      spec_BuildTx_def exitCode_def)

text \<open>
  C2 as stated asks for a non-zero exit code whenever the user declines. On the
  sample collaborators with a user who answers no (and no read error), \<open>tx raw\<close>
  returns \<open>nil\<close>: exit code 0.
\<close>

theorem raw_declined_confirmation_counterexample:
  "GetConfirmation declining confirm_prompt = (False, None) \<and>
   fst (NewRawTxCmd declining [''0x0105020199aa'']) = None \<and>
   exitCode (fst (NewRawTxCmd declining [''0x0105020199aa''])) = 0"
  by (simp add: NewRawTxCmd_def run_defs sample_defs exitCode_def
      sample_Decode_good sample_Unmarshal_good spec_BuildTx_def)

subsection \<open>The mapping commands validate before they submit\<close>

text \<open>
  C10. In every run of \<open>tx set-mapping-evm\<close> and \<open>tx delete-mapping-evm\<close>, a message is
  handed to \<open>GenerateOrBroadcastTxCLI\<close> only if its \<open>ValidateBasic\<close> returned no error;
  and when the validation of the constructed message fails, the command returns that
  error with nothing submitted (\<open>set-mapping-evm\<close> has by then printed its argument).
\<close>

theorem mapping_cmds_validate_before_submitting:
  "(\<forall>ctx m. GenerateOrBroadcast ctx m \<in> set (snd (getCmdSetMappingEvmAddress c args)) \<longrightarrow>
      ValidateBasic_mapping c m = None) \<and>
   (\<forall>ctx m. GenerateOrBroadcast ctx m \<in> set (snd (getCmdDeleteMappingEvmAddress c args)) \<longrightarrow>
      ValidateBasic_mapping c m = None) \<and>
   (\<forall>ctx a e.
      GetClientTxContext c = Inr ctx \<and>
      ValidateBasic_mapping c (NewMsgSetMappingEvmAddress (FromAddress ctx) a) = Some e \<longrightarrow>
      getCmdSetMappingEvmAddress c [a] = (Some e, [Stdout (''pubkey:  '' @ a @ newline)])) \<and>
   (\<forall>ctx e.
      GetClientTxContext c = Inr ctx \<and>
      ValidateBasic_mapping c (NewMsgDeleteMappingEvmAddress (FromAddress ctx)) = Some e \<longrightarrow>
      getCmdDeleteMappingEvmAddress c [] = (Some e, []))"
  by (auto simp: getCmdSetMappingEvmAddress_def getCmdDeleteMappingEvmAddress_def run_defs Let_def
      split: list.splits sum.splits option.splits)

theorem mapping_cmds_witness:
  "getCmdSetMappingEvmAddress sample [[]] =
     (Some (Failure ''empty address''), [Stdout (''pubkey:  '' @ newline)]) \<and>
   getCmdDeleteMappingEvmAddress anonymous [] = (Some (Failure ''empty address''), []) \<and>
   GenerateOrBroadcast sample_ctx (NewMsgSetMappingEvmAddress ''orai1sender'' ''0xab'')
     \<in> set (snd (getCmdSetMappingEvmAddress sample [''0xab''])) \<and>
   ValidateBasic_mapping sample (NewMsgSetMappingEvmAddress ''orai1sender'' ''0xab'') = None"
proof -
  note checked = mapping_cmds_validate_before_submitting
  have "GetClientTxContext sample = Inr sample_ctx"
    and "ValidateBasic_mapping sample (NewMsgSetMappingEvmAddress (FromAddress sample_ctx) []) =
      Some (Failure ''empty address'')"
    by (simp_all add: sample_defs)
  with checked [of sample "[]"]
  have set_refused: "getCmdSetMappingEvmAddress sample [[]] =
      (Some (Failure ''empty address''), [Stdout (''pubkey:  '' @ newline)])"
    by (metis append_Nil)
  have "GetClientTxContext anonymous = Inr (sample_ctx\<lparr>FromAddress := []\<rparr>)"
    and "ValidateBasic_mapping anonymous
      (NewMsgDeleteMappingEvmAddress (FromAddress (sample_ctx\<lparr>FromAddress := []\<rparr>))) =
      Some (Failure ''empty address'')"
    by (simp_all add: sample_defs)
  with checked [of anonymous "[]"]
  have delete_refused: "getCmdDeleteMappingEvmAddress anonymous [] = (Some (Failure ''empty address''), [])"
    by blast
  have submitted:
    "GenerateOrBroadcast sample_ctx (NewMsgSetMappingEvmAddress ''orai1sender'' ''0xab'')
      \<in> set (snd (getCmdSetMappingEvmAddress sample [''0xab'']))"
    by (simp add: getCmdSetMappingEvmAddress_def run_defs sample_defs Let_def)
  with checked [of sample "[''0xab'']"]
  have "ValidateBasic_mapping sample (NewMsgSetMappingEvmAddress ''orai1sender'' ''0xab'') = None"
    by blast
  with set_refused delete_refused submitted show ?thesis by blast
qed

subsection \<open>The Query Dispatcher\<close>

text \<open>
  C6, as the code has it. Once the client context is there (and, for \<open>storage\<close> and
  \<open>code\<close>, the address is normalized), each query command issues exactly one remote
  call; a failure is returned as it is, with nothing printed, and a response is
  handed unchanged to \<open>PrintProto\<close>, whose result the command returns. For \<open>storage\<close>,
  \<open>code\<close> and \<open>params\<close> the call's context is
  \<open>ContextWithHeight(clientCtx.Height)\<close>; for \<open>mappedevm\<close> it is \<open>context.Background()\<close>,
  which carries no height: there the height travels only in the client context
  the query client is built from.
\<close>

theorem query_dispatch_one_call_per_query:
  assumes "GetClientQueryContext c = Inr ctx"
  shows
   "(\<forall>addr. accountToHex c a = Inr addr \<longrightarrow>
       (let call = Storage_call (ContextWithHeight (Height ctx))
              \<lparr>Address = addr, Key = formatKeyToHash c k\<rparr> in
        rpc_calls (snd (GetStorageCmd c [a, k])) = [call] \<and>
        (case rpc_Storage c ctx (ContextWithHeight (Height ctx))
              \<lparr>Address = addr, Key = formatKeyToHash c k\<rparr> of
           Inl e \<Rightarrow> GetStorageCmd c [a, k] = (Some e, [RPC call])
         | Inr res \<Rightarrow> GetStorageCmd c [a, k] =
             (PrintProto_result c (StorageResponse res),
              [RPC call, PrintProto (StorageResponse res)])))) \<and>
    (\<forall>addr. accountToHex c a = Inr addr \<longrightarrow>
       (let call = Code_call (ContextWithHeight (Height ctx)) addr in
        rpc_calls (snd (GetCodeCmd c [a])) = [call] \<and>
        (case rpc_Code c ctx (ContextWithHeight (Height ctx)) addr of
           Inl e \<Rightarrow> GetCodeCmd c [a] = (Some e, [RPC call])
         | Inr res \<Rightarrow> GetCodeCmd c [a] =
             (PrintProto_result c (CodeResponse res),
              [RPC call, PrintProto (CodeResponse res)])))) \<and>
    (let call = Params_call (ContextWithHeight (Height ctx)) in
     rpc_calls (snd (GetParamsCmd c [])) = [call] \<and>
     (case rpc_Params c ctx (ContextWithHeight (Height ctx)) of
        Inl e \<Rightarrow> GetParamsCmd c [] = (Some e, [RPC call])
      | Inr res \<Rightarrow> GetParamsCmd c [] =
          (PrintProto_result c (ParamsResponse res),
           [RPC call, PrintProto (ParamsResponse res)]))) \<and>
    (let call = MappedEvmAddress_call context_Background x in
     rpc_calls (snd (QueryMappedEvmAddressCmd c [x])) = [call] \<and>
     (case rpc_MappedEvmAddress c ctx context_Background x of
        Inl e \<Rightarrow> QueryMappedEvmAddressCmd c [x] = (Some e, [RPC call])
      | Inr res \<Rightarrow> QueryMappedEvmAddressCmd c [x] =
          (PrintProto_result c (MappedEvmAddressResponse res),
           [RPC call, PrintProto (MappedEvmAddressResponse res)])))"
proof -
  have storage: "\<forall>addr. accountToHex c a = Inr addr \<longrightarrow>
       (let call = Storage_call (ContextWithHeight (Height ctx))
              \<lparr>Address = addr, Key = formatKeyToHash c k\<rparr> in
        rpc_calls (snd (GetStorageCmd c [a, k])) = [call] \<and>
        (case rpc_Storage c ctx (ContextWithHeight (Height ctx))
              \<lparr>Address = addr, Key = formatKeyToHash c k\<rparr> of
           Inl e \<Rightarrow> GetStorageCmd c [a, k] = (Some e, [RPC call])
         | Inr res \<Rightarrow> GetStorageCmd c [a, k] =
             (PrintProto_result c (StorageResponse res),
              [RPC call, PrintProto (StorageResponse res)])))"
    using assms by (simp add: GetStorageCmd_def run_defs Let_def split: sum.splits)
  have code: "\<forall>addr. accountToHex c a = Inr addr \<longrightarrow>
       (let call = Code_call (ContextWithHeight (Height ctx)) addr in
        rpc_calls (snd (GetCodeCmd c [a])) = [call] \<and>
        (case rpc_Code c ctx (ContextWithHeight (Height ctx)) addr of
           Inl e \<Rightarrow> GetCodeCmd c [a] = (Some e, [RPC call])
         | Inr res \<Rightarrow> GetCodeCmd c [a] =
             (PrintProto_result c (CodeResponse res),
              [RPC call, PrintProto (CodeResponse res)])))"
    using assms by (simp add: GetCodeCmd_def run_defs Let_def split: sum.splits)
  have params: "(let call = Params_call (ContextWithHeight (Height ctx)) in
     rpc_calls (snd (GetParamsCmd c [])) = [call] \<and>
     (case rpc_Params c ctx (ContextWithHeight (Height ctx)) of
        Inl e \<Rightarrow> GetParamsCmd c [] = (Some e, [RPC call])
      | Inr res \<Rightarrow> GetParamsCmd c [] =
          (PrintProto_result c (ParamsResponse res),
           [RPC call, PrintProto (ParamsResponse res)])))"
    using assms by (simp add: GetParamsCmd_def run_defs Let_def split: sum.splits)
  have mapped: "(let call = MappedEvmAddress_call context_Background x in
     rpc_calls (snd (QueryMappedEvmAddressCmd c [x])) = [call] \<and>
     (case rpc_MappedEvmAddress c ctx context_Background x of
        Inl e \<Rightarrow> QueryMappedEvmAddressCmd c [x] = (Some e, [RPC call])
      | Inr res \<Rightarrow> QueryMappedEvmAddressCmd c [x] =
          (PrintProto_result c (MappedEvmAddressResponse res),
           [RPC call, PrintProto (MappedEvmAddressResponse res)])))"
    using assms by (simp add: QueryMappedEvmAddressCmd_def run_defs Let_def split: sum.splits)
  from storage code params mapped show ?thesis by blast
qed

theorem query_dispatch_witness:
  "GetStorageCmd at_height_7 [''0x00000000000000000000000000000000000000Ab'', ''0x01''] =
     (None,
      [RPC (Storage_call (ContextWithHeight 7)
         \<lparr>Address = ''0x00000000000000000000000000000000000000ab'',
          Key = ''0x0000000000000000000000000000000000000000000000000000000000000001''\<rparr>),
       PrintProto (StorageResponse ''0x2a'')]) \<and>
   GetCodeCmd at_height_7 [''0x00000000000000000000000000000000000000Ab''] =
     (None,
      [RPC (Code_call (ContextWithHeight 7) ''0x00000000000000000000000000000000000000ab''),
       PrintProto (CodeResponse [0x60, 0x80])]) \<and>
   GetParamsCmd at_height_7 [] =
     (None,
      [RPC (Params_call (ContextWithHeight 7)),
       PrintProto (ParamsResponse \<lparr>Params = \<lparr>EvmDenom = ''aorai''\<rparr>\<rparr>)]) \<and>
   QueryMappedEvmAddressCmd at_height_7 [''orai1knzg''] =
     (None,
      [RPC (MappedEvmAddress_call context_Background ''orai1knzg''),
       PrintProto (MappedEvmAddressResponse ''0xab'')])"
  using query_dispatch_one_call_per_query
    [of at_height_7 "sample_ctx\<lparr>Height := 7\<rparr>" "''0x00000000000000000000000000000000000000Ab''"
      "''0x01''" "''orai1knzg''"]
  by (simp add: sample_defs sample_address sample_key Let_def)

text \<open>
  C6 as stated has every query kind carry the caller's height as the call's context.
  With the height 7 in the client context, the one call of \<open>mappedevm\<close> has the
  background context, not \<open>ContextWithHeight 7\<close>.
\<close>

theorem query_dispatch_counterexample:
  "GetClientQueryContext at_height_7 = Inr (sample_ctx\<lparr>Height := 7\<rparr>) \<and>
   Height (sample_ctx\<lparr>Height := 7\<rparr>) = 7 \<and>
   map call_context_of
     (rpc_calls (snd (QueryMappedEvmAddressCmd at_height_7
       [''orai1knzg7jdc49ghnc2pkqg6vks8ccsk6efzfgv6gv'']))) = [context_Background] \<and>
   context_Background \<noteq> ContextWithHeight 7"
  by (simp add: QueryMappedEvmAddressCmd_def run_defs sample_defs)

subsection \<open>The argument normalizers\<close>

lemma hexval_lowerHex: "hexval (lowerHex ch) = hexval ch"
  by (simp add: hexval_def lowerHex_def)

lemma lowerHex_idem: "lowerHex (lowerHex ch) = lowerHex ch"
  by (simp add: lowerHex_def)

lemma isHexDigit_lowerHex: "isHexDigit ch \<Longrightarrow> isHexDigit (lowerHex ch)"
  by (simp add: hexval_lowerHex isHexDigit_def)

lemma strip0x_prefixed: "strip0x (''0x'' @ d) = d"
  by (simp add: strip0x_def)

lemma hexBytes_length: "hexBytes d = Some bs \<Longrightarrow> length d = 2 * length bs"
  by (induction d arbitrary: bs rule: hexBytes.induct) (auto split: option.splits)

lemma hexBytes_digits:
  "list_all isHexDigit d \<Longrightarrow> even (length d) \<Longrightarrow> hexBytes d \<noteq> None"
proof (induction d rule: hexBytes.induct)
  case 1
  then show ?case by simp
next
  case (2 a)
  then show ?case by simp
next
  case (3 a b r)
  from "3.prems" obtain x y where xy: "hexval a = Some x" "hexval b = Some y"
    by (auto simp: isHexDigit_def)
  from "3.prems" have "list_all isHexDigit r" and "even (length r)"
    by simp_all
  with "3.IH" [OF xy] have "hexBytes r \<noteq> None" .
  with xy show ?case by auto
qed

lemma hexval_zero: "hexval (CHR ''0'') = Some 0"
  by (simp add: hexval_def)

lemma hexBytes_zero_pad:
  "hexBytes (replicate (2 * n) (CHR ''0'') @ d) = map_option ((@) (replicate n 0)) (hexBytes d)"
  by (induction n) (auto simp: hexval_zero option.map_ident split: option.splits)

lemma hexBytes_zero_pad_odd:
  "hexBytes (replicate (Suc (2 * n)) (CHR ''0'') @ d) =
     map_option ((@) (replicate n 0)) (hexBytes (CHR ''0'' # d))"
proof -
  have "replicate (Suc (2 * n)) (CHR ''0'') @ d = replicate (2 * n) (CHR ''0'') @ CHR ''0'' # d"
    by (simp add: replicate_app_Cons_same)
  then show ?thesis
    by (simp only: hexBytes_zero_pad)
qed

lemma formatKeyToHash_digits:
  "drop 2 (spec_formatKeyToHash key) =
     replicate (64 - length (strip0x key)) (CHR ''0'') @ strip0x key"
  by (simp add: spec_formatKeyToHash_def Let_def)

text \<open>
  C9, on \<open>accountToHex\<close> as section 4.1 of the spec describes it. For every valid
  20-byte address, in plain hex or checksummed (mixed-case) form, \<open>accountToHex\<close>
  succeeds with the canonical form, 42 characters long, and applied to its own output
  returns that output again; for every other input it fails with \<open>InvalidAddress\<close>. It
  is a function of its input alone.
\<close>

theorem accountToHex_canonical_and_idempotent:
  "(isHexAddress s \<longrightarrow>
      spec_accountToHex s = Inr (''0x'' @ map lowerHex (strip0x s)) \<and>
      spec_accountToHex (''0x'' @ map lowerHex (strip0x s)) =
        Inr (''0x'' @ map lowerHex (strip0x s)) \<and>
      length (''0x'' @ map lowerHex (strip0x s)) = 42) \<and>
   (\<not> isHexAddress s \<longrightarrow> spec_accountToHex s = Inl InvalidAddress)"
proof -
  let ?h = "''0x'' @ map lowerHex (strip0x s)"
  have canon: "isHexAddress ?h" if "isHexAddress s"
  proof -
    from that have "length (strip0x s) = 40" and digits: "list_all isHexDigit (strip0x s)"
      by (simp_all add: isHexAddress_def)
    moreover from digits have "list_all isHexDigit (map lowerHex (strip0x s))"
      by (simp add: list_all_iff isHexDigit_lowerHex)
    ultimately show ?thesis
      unfolding isHexAddress_def strip0x_prefixed by simp
  qed
  have again: "map lowerHex (strip0x ?h) = map lowerHex (strip0x s)"
    unfolding strip0x_prefixed by (simp add: lowerHex_idem)
  have "spec_accountToHex ?h = Inr ?h" if "isHexAddress s"
    using canon [OF that] again by (simp add: spec_accountToHex_def)
  moreover have "length ?h = 42" if "isHexAddress s"
    using that by (simp add: isHexAddress_def)
  ultimately show ?thesis
    by (simp add: spec_accountToHex_def)
qed

theorem accountToHex_witness:
  "isHexAddress ''0x00000000000000000000000000000000000000Ab'' \<and>
   spec_accountToHex ''0x00000000000000000000000000000000000000Ab'' =
     Inr ''0x00000000000000000000000000000000000000ab'' \<and>
   spec_accountToHex ''0x00000000000000000000000000000000000000ab'' =
     Inr ''0x00000000000000000000000000000000000000ab'' \<and>
   \<not> isHexAddress ''0xabc'' \<and>
   spec_accountToHex ''0xabc'' = Inl InvalidAddress"
proof -
  have valid: "isHexAddress ''0x00000000000000000000000000000000000000Ab''"
    by (simp add: isHexAddress_def strip0x_def isHexDigit_def hexval_def)
  have canonical: "''0x'' @ map lowerHex (strip0x ''0x00000000000000000000000000000000000000Ab'') =
      ''0x00000000000000000000000000000000000000ab''"
    by (simp add: strip0x_def lowerHex_def)
  have short: "\<not> isHexAddress ''0xabc''"
    by (simp add: isHexAddress_def strip0x_def)
  from valid accountToHex_canonical_and_idempotent
    [of "''0x00000000000000000000000000000000000000Ab''"]
  have "spec_accountToHex ''0x00000000000000000000000000000000000000Ab'' =
      Inr ''0x00000000000000000000000000000000000000ab''"
    and "spec_accountToHex ''0x00000000000000000000000000000000000000ab'' =
      Inr ''0x00000000000000000000000000000000000000ab''"
    unfolding canonical by blast+
  moreover from short accountToHex_canonical_and_idempotent [of "''0xabc''"]
  have "spec_accountToHex ''0xabc'' = Inl InvalidAddress"
    by blast
  ultimately show ?thesis using valid short by blast
qed

text \<open>
  C8, as the code has it. \<open>formatKeyToHash\<close> has no failure: \<open>GetStorageCmd\<close> binds its one
  result and puts it into the request, so whatever the key argument is, the storage
  query is issued once the address is normalized. For every key of hex digits no
  longer than 32 bytes (64 digits), with or without \<open>0x\<close>, of an even or an odd number
  of digits, the output of \<open>formatKeyToHash\<close> as section 4.1 describes it is \<open>0x\<close>, then
  zero digits, then the key's own digits, 64 digits in all; read as bytes it is
  exactly 32 bytes, the key's bytes after as many zero bytes as it takes.
\<close>

theorem formatKeyToHash_pads_and_cannot_fail:
  "(\<forall>ctx addr. GetClientQueryContext c = Inr ctx \<and> accountToHex c a = Inr addr \<longrightarrow>
      rpc_calls (snd (GetStorageCmd c [a, k])) =
        [Storage_call (ContextWithHeight (Height ctx))
          \<lparr>Address = addr, Key = formatKeyToHash c k\<rparr>]) \<and>
   (list_all isHexDigit (strip0x key) \<and> length (strip0x key) \<le> 64 \<longrightarrow>
      spec_formatKeyToHash key =
        ''0x'' @ replicate (64 - length (strip0x key)) (CHR ''0'') @ strip0x key \<and>
      length (drop 2 (spec_formatKeyToHash key)) = 64 \<and>
      (\<exists>ks. hexBytes (wholeBytes (strip0x key)) = Some ks \<and>
         hexBytes (drop 2 (spec_formatKeyToHash key)) = Some (replicate (32 - length ks) 0 @ ks) \<and>
         length (replicate (32 - length ks) (0::byte) @ ks) = 32))"
proof -
  let ?d = "strip0x key"
  let ?out = "replicate (64 - length ?d) (CHR ''0'') @ ?d"
  have called: "\<forall>ctx addr. GetClientQueryContext c = Inr ctx \<and> accountToHex c a = Inr addr \<longrightarrow>
      rpc_calls (snd (GetStorageCmd c [a, k])) =
        [Storage_call (ContextWithHeight (Height ctx))
          \<lparr>Address = addr, Key = formatKeyToHash c k\<rparr>]"
    by (simp add: GetStorageCmd_def run_defs Let_def split: sum.splits)
  have digits: "spec_formatKeyToHash key = ''0x'' @ ?out"
    by (simp add: spec_formatKeyToHash_def Let_def)
  have width: "length ?out = 64" if "length ?d \<le> 64"
    using that by simp
  have bytes: "\<exists>ks. hexBytes (wholeBytes ?d) = Some ks \<and>
      hexBytes ?out = Some (replicate (32 - length ks) 0 @ ks) \<and>
      length (replicate (32 - length ks) (0::byte) @ ks) = 32"
    if hex: "list_all isHexDigit ?d" and short: "length ?d \<le> 64"
  proof (cases "even (length ?d)")
    case True
    with hex obtain ks where ks: "hexBytes ?d = Some ks"
      using hexBytes_digits [of ?d] by auto
    from hexBytes_length [OF ks] short have len: "length ?d = 2 * length ks" "length ks \<le> 32"
      by simp_all
    then have "64 - length ?d = 2 * (32 - length ks)"
      by simp
    then have "hexBytes ?out = Some (replicate (32 - length ks) 0 @ ks)"
      using ks by (simp add: hexBytes_zero_pad)
    with ks len True show ?thesis
      by (simp add: wholeBytes_def)
  next
    case False
    from hex have "list_all isHexDigit (CHR ''0'' # ?d)"
      by (simp add: isHexDigit_def hexval_zero)
    with False obtain ks where ks: "hexBytes (CHR ''0'' # ?d) = Some ks"
      using hexBytes_digits [of "CHR ''0'' # ?d"] by auto
    from hexBytes_length [OF ks] short False
    have len: "Suc (length ?d) = 2 * length ks" "length ks \<le> 32"
      by auto
    then have "64 - length ?d = Suc (2 * (32 - length ks))"
      by simp
    then have "hexBytes ?out = Some (replicate (32 - length ks) 0 @ ks)"
      using ks by (simp only: hexBytes_zero_pad_odd) simp
    with ks len False show ?thesis
      by (simp add: wholeBytes_def)
  qed
  from called digits width bytes show ?thesis
    by (simp only: digits) auto
qed

theorem formatKeyToHash_witness:
  "rpc_calls (snd (GetStorageCmd sample [''0x00000000000000000000000000000000000000Ab'', ''0x01''])) =
     [Storage_call (ContextWithHeight 0)
       \<lparr>Address = ''0x00000000000000000000000000000000000000ab'',
        Key = ''0x0000000000000000000000000000000000000000000000000000000000000001''\<rparr>] \<and>
   spec_formatKeyToHash ''0x1'' =
     ''0x0000000000000000000000000000000000000000000000000000000000000001'' \<and>
   hexBytes (wholeBytes (strip0x ''0x1'')) = Some [1] \<and>
   hexBytes (drop 2 (spec_formatKeyToHash ''0x1'')) = Some (replicate 31 0 @ [1])"
proof -
  note padding = formatKeyToHash_pads_and_cannot_fail
    [of sample "''0x00000000000000000000000000000000000000Ab''" "''0x01''" "''0x1''"]
  have "GetClientQueryContext sample = Inr sample_ctx"
    and "accountToHex sample ''0x00000000000000000000000000000000000000Ab'' =
      Inr ''0x00000000000000000000000000000000000000ab''"
    and "formatKeyToHash sample ''0x01'' =
      ''0x0000000000000000000000000000000000000000000000000000000000000001''"
    and "Height sample_ctx = 0"
    by (simp_all add: sample_defs sample_address sample_key)
  with padding have called:
    "rpc_calls (snd (GetStorageCmd sample [''0x00000000000000000000000000000000000000Ab'', ''0x01''])) =
     [Storage_call (ContextWithHeight 0)
       \<lparr>Address = ''0x00000000000000000000000000000000000000ab'',
        Key = ''0x0000000000000000000000000000000000000000000000000000000000000001''\<rparr>]"
    by metis
  have digits: "list_all isHexDigit (strip0x ''0x1'') \<and> length (strip0x ''0x1'') \<le> 64"
    by (simp add: strip0x_def isHexDigit_def hexval_def)
  have one: "hexBytes (wholeBytes (strip0x ''0x1'')) = Some [1]"
    by (simp add: strip0x_def wholeBytes_def hexval_def)
  from digits padding
  have "spec_formatKeyToHash ''0x1'' =
      ''0x'' @ replicate (64 - length (strip0x ''0x1'')) (CHR ''0'') @ strip0x ''0x1''"
    by blast
  then have literal: "spec_formatKeyToHash ''0x1'' =
      ''0x0000000000000000000000000000000000000000000000000000000000000001''"
    by (simp add: strip0x_def eval_nat_numeral)
  from digits padding obtain ks where "hexBytes (wholeBytes (strip0x ''0x1'')) = Some ks"
    and "hexBytes (drop 2 (spec_formatKeyToHash ''0x1'')) = Some (replicate (32 - length ks) 0 @ ks)"
    by blast
  with one have "hexBytes (drop 2 (spec_formatKeyToHash ''0x1'')) = Some (replicate 31 0 @ [1])"
    by simp
  with called literal one show ?thesis by blast
qed

text \<open>
  C8 as stated has \<open>formatKeyToHash\<close> fail with \<open>InvalidKey\<close> on a key that is not hex or is
  longer than 32 bytes. The call in \<open>GetStorageCmd\<close> has no error to return: on the key
  \<open>0xzz\<close>, and on a key of 33 bytes, \<open>query storage\<close> issues its one query and returns
  \<open>nil\<close>.
\<close>

theorem formatKeyToHash_counterexample:
  "hexBytes (strip0x ''0xzz'') = None \<and>
   fst (GetStorageCmd sample [''0x00000000000000000000000000000000000000Ab'', ''0xzz'']) = None \<and>
   length (rpc_calls (snd (GetStorageCmd sample
     [''0x00000000000000000000000000000000000000Ab'', ''0xzz'']))) = 1 \<and>
   length (strip0x (''0x'' @ replicate 66 (CHR ''1''))) = 2 * 33 \<and>
   fst (GetStorageCmd sample
     [''0x00000000000000000000000000000000000000Ab'', ''0x'' @ replicate 66 (CHR ''1'')]) = None \<and>
   length (rpc_calls (snd (GetStorageCmd sample
     [''0x00000000000000000000000000000000000000Ab'', ''0x'' @ replicate 66 (CHR ''1'')]))) = 1"
  by (simp add: GetStorageCmd_def run_defs Let_def sample_defs sample_address strip0x_def
      hexval_def)

subsection \<open>The bridge re-wraps and does not rewrite\<close>

text \<open>
  C1, with the envelope builder of section 4.5 of the spec. For every blob that the
  Raw Decoder accepts (hex decoding, deserialization and basic validation succeed),
  \<open>tx raw\<close> builds exactly one envelope, from the decoded transaction itself and the
  fetched denomination; the transaction re-extracted from that envelope has the
  decoded transaction's payload and signature, byte for byte; and whatever the run
  broadcasts is the encoding of that very envelope.
\<close>

theorem raw_bridge_rewraps_payload_and_signature:
  assumes "BuildTx c = spec_BuildTx"
    and "hexutil_Decode c tx_hex = Inr blob"
    and "UnmarshalBinary c blob = Inr msg"
    and "ValidateBasic c msg = None"
    and "GetClientTxContext c = Inr ctx"
    and "rpc_Params c ctx cmd_Context = Inr rsp"
  shows "\<exists>env. BuildTx c msg (EvmDenom (Params rsp)) = Inr env \<and>
      builds (snd (NewRawTxCmd c [tx_hex])) = [(msg, EvmDenom (Params rsp))] \<and>
      map_option payload (wrappedTx env) = Some (payload msg) \<and>
      map_option signature (wrappedTx env) = Some (signature msg) \<and>
      (\<forall>bz. Broadcast bz \<in> set (snd (NewRawTxCmd c [tx_hex])) \<longrightarrow> TxEncoder c env = Inr bz)"
proof -
  let ?env = "\<lparr>messages = [msg], fee = [(EvmDenom (Params rsp), gasLimit msg * gasPrice msg)],
    memo = []\<rparr>"
  have built: "BuildTx c msg (EvmDenom (Params rsp)) = Inr ?env"
    using assms(1) by (simp add: spec_BuildTx_def)
  have wrapped: "wrappedTx ?env = Some msg"
    by (simp add: wrappedTx_def)
  have trace: "builds (snd (NewRawTxCmd c [tx_hex])) = [(msg, EvmDenom (Params rsp))]"
    using assms(2-6) built
    by (auto simp: NewRawTxCmd_def rawTx_broadcast_def run_defs
        split: sum.splits prod.splits)
  have sent: "\<forall>bz. Broadcast bz \<in> set (snd (NewRawTxCmd c [tx_hex])) \<longrightarrow> TxEncoder c ?env = Inr bz"
    using assms(2-6) built
    by (auto simp: NewRawTxCmd_def rawTx_broadcast_def run_defs
        split: sum.splits prod.splits if_splits)
  from built wrapped trace sent show ?thesis
    by (intro exI [of _ ?env]) simp
qed

theorem raw_bridge_witness:
  "BuildTx sample = spec_BuildTx \<and>
   hexutil_Decode sample ''0x0105020199aa'' = Inr [1, 5, 2, 1, 0x99, 0xaa] \<and>
   (\<exists>msg env.
      UnmarshalBinary sample [1, 5, 2, 1, 0x99, 0xaa] = Inr msg \<and>
      BuildTx sample msg ''aorai'' = Inr env \<and>
      map_option payload (wrappedTx env) = Some [0xaa] \<and>
      map_option signature (wrappedTx env) = Some [0x99] \<and>
      TxEncoder sample env = Inr [0x99, 0xaa])"
proof -
  let ?msg = "\<lparr>sender = [], nonce = 1, gasLimit = 5, gasPrice = 2, payload = [0xaa],
    signature = [0x99::byte]\<rparr>"
  have pre: "BuildTx sample = spec_BuildTx"
    "hexutil_Decode sample ''0x0105020199aa'' = Inr [1, 5, 2, 1, 0x99, 0xaa]"
    "UnmarshalBinary sample [1, 5, 2, 1, 0x99, 0xaa] = Inr ?msg"
    "ValidateBasic sample ?msg = None"
    "GetClientTxContext sample = Inr sample_ctx"
    "rpc_Params sample sample_ctx cmd_Context = Inr \<lparr>Params = \<lparr>EvmDenom = ''aorai''\<rparr>\<rparr>"
    by (simp_all add: sample_defs sample_Decode_good sample_Unmarshal_good)
  have sent: "Broadcast [0x99, 0xaa] \<in> set (snd (NewRawTxCmd sample [''0x0105020199aa'']))"
    by (simp add: sample_run_confirmed)
  from raw_bridge_rewraps_payload_and_signature [OF pre] sent
  obtain env where "BuildTx sample ?msg ''aorai'' = Inr env"
    and "map_option payload (wrappedTx env) = Some [0xaa]"
    and "map_option signature (wrappedTx env) = Some [0x99]"
    and "TxEncoder sample env = Inr [0x99, 0xaa]"
    by auto
  with pre show ?thesis by blast
qed

end
